theory Spec2Isabelle
  imports Main
begin

section \<open>Data model (src/database/models.py, src/schemas.py)\<close>

text \<open>The closed set of roles, \<^verbatim>\<open>class Role(enum.Enum)\<close>.\<close>

datatype Role = admin | moderator | user

text \<open>
  A calendar date as Python's \<^verbatim>\<open>datetime.date\<close> exposes it: the three attributes
  \<^verbatim>\<open>year\<close>, \<^verbatim>\<open>month\<close> and \<^verbatim>\<open>day\<close>.
\<close>

record date =
  year :: int
  month :: int
  day :: int

text \<open>A reading of the store's clock (\<^verbatim>\<open>func.now()\<close>), on an integer time line.\<close>

type_synonym datetime = int

text \<open>
  \<^verbatim>\<open>ClientModel\<close> is the request payload. A \<^verbatim>\<open>Client\<close> row carries the same
  six columns (\<^verbatim>\<open>Client(**body.dict())\<close>) plus the primary key and the two
  timestamps, so the row type extends the payload type. The primary key column
  \<^verbatim>\<open>id\<close> is called \<open>id_pk\<close> here.
\<close>

record ClientModel =
  first_name :: string
  last_name :: string
  email :: string
  mobile :: string
  birthday :: date
  add_info :: string

record Client = ClientModel +
  id_pk :: int
  created_at :: datetime
  updated_at :: datetime

text \<open>
  The database session: the rows of table \<^verbatim>\<open>clients\<close> in the store's natural
  order, and the next value of the sequence behind the integer primary key.
\<close>

record Session =
  clients :: "Client list"
  next_id :: int

text \<open>
  Everything a request can fail with. \<open>HTTPException\<close> carries the status code and the
  detail text the route raises; \<open>RequestValidationError\<close> is the framework's rejection of
  a parameter that violates its declared constraint; \<open>IntegrityError\<close> is the store
  refusing a write that violates a declared constraint; \<open>Forbidden\<close> and \<open>Throttled\<close> are
  the failures of the role dependency and of the rate limiter; \<open>OverflowError\<close> is date
  arithmetic leaving the range of \<^verbatim>\<open>datetime.date\<close>.
\<close>

datatype error =
  Forbidden
  | Throttled
  | RequestValidationError
  | HTTPException int string
  | IntegrityError
  | OverflowError

fun status_code :: "error \<Rightarrow> int" where
  "status_code Forbidden = 403"
| "status_code Throttled = 429"
| "status_code RequestValidationError = 422"
| "status_code (HTTPException code detail) = code"
| "status_code IntegrityError = 500"
| "status_code OverflowError = 500"

section \<open>Repository (src/repository/clients.py)\<close>

definition repository_get_clients :: "Session \<Rightarrow> Client list" where
  "repository_get_clients db = clients db"

definition repository_get_client_by_id :: "int \<Rightarrow> Session \<Rightarrow> Client option" where
  "repository_get_client_by_id client_id db =
     find (\<lambda>c. id_pk c = client_id) (clients db)"

definition repository_get_client_by_email :: "string \<Rightarrow> Session \<Rightarrow> Client option" where
  "repository_get_client_by_email e db =
     find (\<lambda>c. email c = e) (clients db)"

text \<open>
  \<^verbatim>\<open>create\<close>: build the row from the payload, add, commit, refresh. The commit
  assigns the primary key from the sequence and both timestamps from the column default
  \<^verbatim>\<open>func.now()\<close>; the column \<^verbatim>\<open>email\<close> is declared \<^verbatim>\<open>unique=True\<close>, so the
  store refuses the insert when some row already holds that email.
\<close>

definition repository_create ::
  "ClientModel \<Rightarrow> Session \<Rightarrow> datetime \<Rightarrow> (error + Client) \<times> Session" where
  "repository_create body db t =
     (if list_ex (\<lambda>c. email c = email body) (clients db) then (Inl IntegrityError, db)
      else
        (let client = \<lparr>first_name = first_name body, last_name = last_name body,
                         email = email body, mobile = mobile body,
                         birthday = birthday body, add_info = add_info body,
                         id_pk = next_id db, created_at = t, updated_at = t\<rparr>
         in (Inr client,
             db\<lparr>clients := clients db @ [client], next_id := next_id db + 1\<rparr>)))"

text \<open>
  \<^verbatim>\<open>update\<close>: look the row up; when found, assign the six payload fields and commit;
  return the row (or \<^verbatim>\<open>None\<close>). What the commit writes is decided by the session:
  \<^item> a column is written only when the assigned value differs from the stored one, and
    when none of the six differs no update is issued at all: the row, with its
    \<^verbatim>\<open>updated_at\<close>, stays as it is (\<open>no_net_change\<close>);
  \<^item> otherwise the row with that primary key is updated, and \<^verbatim>\<open>onupdate=func.now()\<close>
    sets \<^verbatim>\<open>updated_at\<close> on that update (\<open>assign_fields\<close>);
  \<^item> the unique constraint on \<^verbatim>\<open>email\<close> refuses the update when another row holds
    the new email, and the exception leaves the function. The constraint holds of every
    store the code can reach, so there the row's own email differs from an email that
    another row holds, and the update is one that is issued.
\<close>

definition no_net_change :: "ClientModel \<Rightarrow> Client \<Rightarrow> bool" where
  "no_net_change body client =
     (first_name client = first_name body \<and> last_name client = last_name body \<and>
      email client = email body \<and> mobile client = mobile body \<and>
      birthday client = birthday body \<and> add_info client = add_info body)"

definition assign_fields :: "ClientModel \<Rightarrow> datetime \<Rightarrow> Client \<Rightarrow> Client" where
  "assign_fields body t client =
     client\<lparr>first_name := first_name body, last_name := last_name body,
            email := email body, mobile := mobile body,
            birthday := birthday body, add_info := add_info body,
            updated_at := t\<rparr>"

definition repository_update ::
  "int \<Rightarrow> ClientModel \<Rightarrow> Session \<Rightarrow> datetime \<Rightarrow> (error + Client option) \<times> Session" where
  "repository_update client_id body db t =
     (case repository_get_client_by_id client_id db of
        None \<Rightarrow> (Inr None, db)
      | Some client \<Rightarrow>
          (if list_ex (\<lambda>c. id_pk c \<noteq> client_id \<and> email c = email body) (clients db)
           then (Inl IntegrityError, db)
           else if no_net_change body client then (Inr (Some client), db)
           else (Inr (Some (assign_fields body t client)),
                 db\<lparr>clients :=
                      map (\<lambda>c. if id_pk c = client_id then assign_fields body t c else c)
                          (clients db)\<rparr>)))"

text \<open>
  \<^verbatim>\<open>remove\<close>: look the row up; when found, delete the row with that primary key and
  commit. The function returns the row as it was read (or \<^verbatim>\<open>None\<close>).
\<close>

definition repository_remove :: "int \<Rightarrow> Session \<Rightarrow> Client option \<times> Session" where
  "repository_remove client_id db =
     (case repository_get_client_by_id client_id db of
        None \<Rightarrow> (None, db)
      | Some client \<Rightarrow>
          (Some client, db\<lparr>clients := filter (\<lambda>c. id_pk c \<noteq> client_id) (clients db)\<rparr>))"

section \<open>Calendar arithmetic behind the query defaults\<close>

text \<open>
  \<^verbatim>\<open>date.today() + timedelta(days=7)\<close>: the proleptic Gregorian calendar, one day at
  a time. Python raises \<^verbatim>\<open>OverflowError\<close> when the result lies after year 9999.
\<close>

definition is_leap :: "int \<Rightarrow> bool" where
  "is_leap y = (if y mod 400 = 0 then True else if y mod 100 = 0 then False else y mod 4 = 0)"

definition days_in_month :: "int \<Rightarrow> int \<Rightarrow> int" where
  "days_in_month y m =
     (if m = 2 then (if is_leap y then 29 else 28)
      else if m = 4 \<or> m = 6 \<or> m = 9 \<or> m = 11 then 30
      else 31)"

definition next_day :: "date \<Rightarrow> date" where
  "next_day d =
     (if day d < days_in_month (year d) (month d) then d\<lparr>day := day d + 1\<rparr>
      else if month d < 12 then d\<lparr>month := month d + 1, day := 1\<rparr>
      else d\<lparr>year := year d + 1, month := 1, day := 1\<rparr>)"

fun add_days :: "date \<Rightarrow> nat \<Rightarrow> date" where
  "add_days d 0 = d"
| "add_days d (Suc n) = add_days (next_day d) n"

definition date_plus_days :: "date \<Rightarrow> nat \<Rightarrow> error + date" where
  "date_plus_days d n =
     (let r = add_days d n in if year r > 9999 then Inl OverflowError else Inr r)"

section \<open>Routes (src/routes/clients.py)\<close>

subsection \<open>Role dependencies and rate limit\<close>

definition allowed_operation_get :: "Role list" where
  "allowed_operation_get = [admin, moderator, user]"

definition allowed_operation_create :: "Role list" where
  "allowed_operation_create = [admin, moderator, user]"

definition allowed_operation_update :: "Role list" where
  "allowed_operation_update = [admin, moderator]"

definition allowed_operation_remove :: "Role list" where
  "allowed_operation_remove = [admin]"

text \<open>
  Modelled from the spec: the class \<^verbatim>\<open>RoleAccess\<close> of \<^verbatim>\<open>src/services/roles.py\<close> is
  missing from the sources. The spec gives its contract as
  \<^verbatim>\<open>authorize(callerRole, allowedRoles) -> Permit | Deny\<close>, a pure decision over role
  membership whose Deny is surfaced as Forbidden (403). \<open>None\<close> is Permit.
\<close>

definition RoleAccess :: "Role list \<Rightarrow> Role \<Rightarrow> error option" where
  "RoleAccess allowed_roles r = (if r \<in> set allowed_roles then None else Some Forbidden)"

text \<open>
  What a request brings besides its operation: the role of the caller as the identity
  collaborator resolved it, the verdict the external rate limiter gives this call when
  asked with a limit of \<open>limit\<close> calls per \<open>seconds\<close> seconds (\<open>True\<close>: over the limit),
  the calendar date on which the request is served, and the reading of the store's clock
  used by a write.
\<close>

record Request =
  current_role :: Role
  over_limit :: "nat \<Rightarrow> nat \<Rightarrow> bool"
  today :: date
  now :: datetime

text \<open>
  The defaults of the two query parameters of \<^verbatim>\<open>get_clients_by_birth_date\<close>. They are
  the default-argument expressions \<^verbatim>\<open>Query(default=date.today())\<close> and
  \<^verbatim>\<open>Query(default=(date.today() + timedelta(days=7)))\<close> of the \<^verbatim>\<open>def\<close>, which
  Python evaluates once, when the module is imported; \<open>import_routes\<close> takes the calendar
  date of that moment.
\<close>

record Routes =
  start_date_default :: date
  end_date_default :: date

definition import_routes :: "date \<Rightarrow> error + Routes" where
  "import_routes imported_on =
     (case date_plus_days imported_on 7 of
        Inl e \<Rightarrow> Inl e
      | Inr d \<Rightarrow> Inr \<lparr>start_date_default = imported_on, end_date_default = d\<rparr>)"

definition query_value :: "'a \<Rightarrow> 'a option \<Rightarrow> 'a" where
  "query_value dflt given = (case given of None \<Rightarrow> dflt | Some v \<Rightarrow> v)"

subsection \<open>Route functions\<close>

definition get_clients :: "Session \<Rightarrow> Client list" where
  "get_clients db = repository_get_clients db"

definition get_clients_by_birth_date :: "date \<Rightarrow> date \<Rightarrow> Session \<Rightarrow> Client list" where
  "get_clients_by_birth_date start_date end_date db =
     filter (\<lambda>c. day (birthday c) \<ge> day start_date \<and>
                 month (birthday c) \<ge> month start_date \<and>
                 day (birthday c) \<le> day end_date \<and>
                 month (birthday c) \<le> month end_date)
            (clients db)"

text \<open>\<^verbatim>\<open>client_id: int = Path(ge=1)\<close> is checked before the body of the function runs.\<close>

definition get_client :: "int \<Rightarrow> Session \<Rightarrow> error + Client" where
  "get_client client_id db =
     (if client_id < 1 then Inl RequestValidationError
      else case repository_get_client_by_id client_id db of
             None \<Rightarrow> Inl (HTTPException 404 ''Not Found'')
           | Some client \<Rightarrow> Inr client)"

definition create_client ::
  "ClientModel \<Rightarrow> Session \<Rightarrow> datetime \<Rightarrow> (error + Client) \<times> Session" where
  "create_client body db t =
     (case repository_get_client_by_email (email body) db of
        Some client \<Rightarrow> (Inl (HTTPException 409 ''Email is exists!''), db)
      | None \<Rightarrow> repository_create body db t)"

definition update_client ::
  "ClientModel \<Rightarrow> int \<Rightarrow> Session \<Rightarrow> datetime \<Rightarrow> (error + Client) \<times> Session" where
  "update_client body client_id db t =
     (if client_id < 1 then (Inl RequestValidationError, db)
      else case repository_update client_id body db t of
             (Inl e, db') \<Rightarrow> (Inl e, db')
           | (Inr None, db') \<Rightarrow> (Inl (HTTPException 404 ''Not Found''), db')
           | (Inr (Some client), db') \<Rightarrow> (Inr client, db'))"

definition remove_client :: "int \<Rightarrow> Session \<Rightarrow> (error + Client) \<times> Session" where
  "remove_client client_id db =
     (if client_id < 1 then (Inl RequestValidationError, db)
      else case repository_remove client_id db of
             (None, db') \<Rightarrow> (Inl (HTTPException 404 ''Not Found''), db')
           | (Some client, db') \<Rightarrow> (Inr client, db'))"

subsection \<open>The router\<close>

datatype operation =
  GetClients
  | GetClientsByBirthDate "date option" "date option"
  | GetClient int
  | CreateClient ClientModel
  | UpdateClient ClientModel int
  | RemoveClient int

datatype content = ClientList "Client list" | ClientItem Client

text \<open>The role dependency each route declares in \<^verbatim>\<open>dependencies=[...]\<close>.\<close>

fun route_access :: "operation \<Rightarrow> Role list" where
  "route_access GetClients = allowed_operation_get"
| "route_access (GetClientsByBirthDate s e) = allowed_operation_get"
| "route_access (GetClient client_id) = allowed_operation_get"
| "route_access (CreateClient body) = allowed_operation_create"
| "route_access (UpdateClient body client_id) = allowed_operation_update"
| "route_access (RemoveClient client_id) = allowed_operation_remove"

text \<open>
  The \<^verbatim>\<open>RateLimiter(times=2, seconds=5)\<close> dependency, declared by the route of
  \<^verbatim>\<open>get_clients\<close> alone, as (times, seconds).
\<close>

fun route_rate_limit :: "operation \<Rightarrow> (nat \<times> nat) option" where
  "route_rate_limit GetClients = Some (2, 5)"
| "route_rate_limit (GetClientsByBirthDate s e) = None"
| "route_rate_limit (GetClient client_id) = None"
| "route_rate_limit (CreateClient body) = None"
| "route_rate_limit (UpdateClient body client_id) = None"
| "route_rate_limit (RemoveClient client_id) = None"

text \<open>
  The status code of a successful response: the route's \<^verbatim>\<open>status_code\<close>, else 200.
  The \<open>content\<close> paired with it is the value the route function returns.
\<close>

fun success_status :: "operation \<Rightarrow> int" where
  "success_status (CreateClient body) = 201"
| "success_status (RemoveClient client_id) = 204"
| "success_status opn = 200"

definition reply :: "int \<Rightarrow> (error + Client) \<times> Session \<Rightarrow> (error + int \<times> content) \<times> Session" where
  "reply code r =
     (case r of
        (Inl e, db') \<Rightarrow> (Inl e, db')
      | (Inr client, db') \<Rightarrow> (Inr (code, ClientItem client), db'))"

fun route_function ::
  "Routes \<Rightarrow> Request \<Rightarrow> operation \<Rightarrow> Session \<Rightarrow> (error + int \<times> content) \<times> Session" where
  "route_function app req GetClients db =
     (Inr (success_status GetClients, ClientList (get_clients db)), db)"
| "route_function app req (GetClientsByBirthDate s e) db =
     (Inr (success_status (GetClientsByBirthDate s e),
           ClientList (get_clients_by_birth_date
                         (query_value (start_date_default app) s)
                         (query_value (end_date_default app) e) db)), db)"
| "route_function app req (GetClient client_id) db =
     reply (success_status (GetClient client_id)) (get_client client_id db, db)"
| "route_function app req (CreateClient body) db =
     reply (success_status (CreateClient body)) (create_client body db (now req))"
| "route_function app req (UpdateClient body client_id) db =
     reply (success_status (UpdateClient body client_id))
           (update_client body client_id db (now req))"
| "route_function app req (RemoveClient client_id) db =
     reply (success_status (RemoveClient client_id)) (remove_client client_id db)"

text \<open>
  One request through the router: the dependencies run in the order the route lists them
  (role check, then rate limiter), each aborting the request when it fails; only then
  are the parameters validated and the route function run.
\<close>

definition endpoint ::
  "Routes \<Rightarrow> Request \<Rightarrow> operation \<Rightarrow> Session \<Rightarrow> (error + int \<times> content) \<times> Session" where
  "endpoint app req opn db =
     (case RoleAccess (route_access opn) (current_role req) of
        Some e \<Rightarrow> (Inl e, db)
      | None \<Rightarrow>
          (case route_rate_limit opn of
             None \<Rightarrow> route_function app req opn db
           | Some (limit, seconds) \<Rightarrow>
               (if over_limit req limit seconds then (Inl Throttled, db)
                else route_function app req opn db)))"

section \<open>Sample data\<close>

text \<open>
  A store with two clients, a payload for a given email address, the payload that repeats
  the first client's stored fields, and a request.
\<close>

definition alice :: Client where
  "alice = \<lparr>first_name = ''Alice'', last_name = ''Adams'', email = ''alice@example.com'',
             mobile = ''+380501112233'', birthday = \<lparr>year = 1990, month = 1, day = 5\<rparr>,
             add_info = ''first'', id_pk = 1, created_at = 10, updated_at = 10\<rparr>"

definition bob :: Client where
  "bob = \<lparr>first_name = ''Bob'', last_name = ''Brown'', email = ''bob@example.com'',
           mobile = ''+380502223344'', birthday = \<lparr>year = 1985, month = 7, day = 15\<rparr>,
           add_info = ''second'', id_pk = 2, created_at = 20, updated_at = 20\<rparr>"

definition two_clients :: Session where
  "two_clients = \<lparr>clients = [alice, bob], next_id = 3\<rparr>"

definition payload :: "string \<Rightarrow> ClientModel" where
  "payload e = \<lparr>first_name = ''Carol'', last_name = ''Clark'', email = e,
                 mobile = ''+380503334455'', birthday = \<lparr>year = 2001, month = 3, day = 9\<rparr>,
                 add_info = ''new''\<rparr>"

definition alice_payload :: ClientModel where
  "alice_payload = \<lparr>first_name = ''Alice'', last_name = ''Adams'',
                     email = ''alice@example.com'', mobile = ''+380501112233'',
                     birthday = \<lparr>year = 1990, month = 1, day = 5\<rparr>, add_info = ''first''\<rparr>"

definition request_of :: "Role \<Rightarrow> date \<Rightarrow> Request" where
  "request_of r d =
     \<lparr>current_role = r, over_limit = (\<lambda>limit seconds. False), today = d, now = 100\<rparr>"

definition routes_of_7_july :: Routes where
  "routes_of_7_july =
     \<lparr>start_date_default = \<lparr>year = 2023, month = 7, day = 7\<rparr>,
      end_date_default = \<lparr>year = 2023, month = 7, day = 14\<rparr>\<rparr>"

section \<open>Auxiliary facts\<close>

lemmas sample_defs = two_clients_def alice_def bob_def payload_def

lemma get_by_id_None:
  "repository_get_client_by_id i db = None \<longleftrightarrow> (\<forall>c\<in>set (clients db). id_pk c \<noteq> i)"
  by (auto simp: repository_get_client_by_id_def find_None_iff)

lemma get_by_id_Some:
  "repository_get_client_by_id i db = Some c \<Longrightarrow> c \<in> set (clients db) \<and> id_pk c = i"
  by (auto simp: repository_get_client_by_id_def find_Some_iff)

lemma get_by_email_None:
  "repository_get_client_by_email e db = None \<longleftrightarrow> (\<forall>c\<in>set (clients db). email c \<noteq> e)"
  by (auto simp: repository_get_client_by_email_def find_None_iff)

lemma role_allowed_get: "r \<in> set allowed_operation_get"
  by (cases r) (simp_all add: allowed_operation_get_def)

lemma role_allowed_create: "r \<in> set allowed_operation_create"
  by (cases r) (simp_all add: allowed_operation_create_def)

lemma endpoint_create:
  "endpoint app req (CreateClient body) db = reply 201 (create_client body db (now req))"
  by (simp add: endpoint_def RoleAccess_def role_allowed_create)

lemma id_pk_assign: "id_pk (assign_fields body t c) = id_pk c"
  by (simp add: assign_fields_def)

lemma find_map_upd:
  "find (\<lambda>c. id_pk c = i) xs = Some x \<Longrightarrow> id_pk (f x) = i \<Longrightarrow>
   find (\<lambda>c. id_pk c = i) (map (\<lambda>c. if id_pk c = i then f c else c) xs) = Some (f x)"
  by (induction xs) (auto split: if_splits)

lemma filter_map_other:
  assumes "\<And>c. id_pk (f c) = id_pk c"
  shows "filter (\<lambda>c. id_pk c \<noteq> i) (map (\<lambda>c. if id_pk c = i then f c else c) xs) =
         filter (\<lambda>c. id_pk c \<noteq> i) xs"
  using assms by (induction xs) auto

section \<open>Access gate\<close>

text \<open>
  Claim C1. For every client operation and every caller role outside that operation's
  allowed-role set, the request ends in Forbidden and the store is returned unchanged.
  The allowed sets are admin, moderator and user for listing, the birthday query,
  get-by-id and create; admin and moderator for update; admin alone for delete.
\<close>

theorem forbidden_role_denied_unchanged:
  "(current_role req \<notin> set (route_access opn) \<longrightarrow>
      endpoint app req opn db = (Inl Forbidden, db))
   \<and> set (route_access GetClients) = {admin, moderator, user}
   \<and> set (route_access (GetClientsByBirthDate s e)) = {admin, moderator, user}
   \<and> set (route_access (GetClient i)) = {admin, moderator, user}
   \<and> set (route_access (CreateClient body)) = {admin, moderator, user}
   \<and> set (route_access (UpdateClient body i)) = {admin, moderator}
   \<and> set (route_access (RemoveClient i)) = {admin}"
  by (simp add: endpoint_def RoleAccess_def allowed_operation_get_def
      allowed_operation_create_def allowed_operation_update_def allowed_operation_remove_def)

theorem forbidden_role_denied_unchanged_witness:
  "current_role (request_of user \<lparr>year = 2023, month = 7, day = 8\<rparr>) = user \<and>
   route_access (UpdateClient (payload ''carol@example.com'') 1) = [admin, moderator] \<and>
   endpoint routes_of_7_july (request_of user \<lparr>year = 2023, month = 7, day = 8\<rparr>)
            (UpdateClient (payload ''carol@example.com'') 1) two_clients =
     (Inl Forbidden, two_clients) \<and>
   route_access (RemoveClient 2) = [admin] \<and>
   endpoint routes_of_7_july (request_of moderator \<lparr>year = 2023, month = 7, day = 8\<rparr>)
            (RemoveClient 2) two_clients =
     (Inl Forbidden, two_clients)"
proof -
  let ?d = "\<lparr>year = 2023, month = 7, day = 8\<rparr>"
  let ?upd = "UpdateClient (payload ''carol@example.com'') 1"
  have h1: "current_role (request_of user ?d) \<notin> set (route_access ?upd)"
    by (simp add: request_of_def allowed_operation_update_def)
  have h2: "current_role (request_of moderator ?d) \<notin> set (route_access (RemoveClient 2))"
    by (simp add: request_of_def allowed_operation_remove_def)
  from h1 forbidden_role_denied_unchanged
            [of "request_of user ?d" ?upd routes_of_7_july two_clients]
  have 1: "endpoint routes_of_7_july (request_of user ?d) ?upd two_clients =
             (Inl Forbidden, two_clients)"
    by blast
  from h2 forbidden_role_denied_unchanged
            [of "request_of moderator ?d" "RemoveClient 2" routes_of_7_july two_clients]
  have 2: "endpoint routes_of_7_july (request_of moderator ?d) (RemoveClient 2) two_clients =
             (Inl Forbidden, two_clients)"
    by blast
  from 1 2 show ?thesis
    by (simp add: request_of_def allowed_operation_update_def allowed_operation_remove_def)
qed

section \<open>Birthday window\<close>

text \<open>
  Claim C2. For every stored client and every pair of start and end date, the birthday
  query returns the client exactly when the day of the birthday is at least the day of
  the start date and at most the day of the end date, and the month of the birthday is at
  least the month of the start date and at most the month of the end date; the years of
  the two dates play no part, and only stored clients are returned.
\<close>

theorem birthday_window_membership:
  "c \<in> set (clients db) \<Longrightarrow>
     (c \<in> set (get_clients_by_birth_date start_date end_date db) \<longleftrightarrow>
        day (birthday c) \<ge> day start_date \<and> month (birthday c) \<ge> month start_date \<and>
        day (birthday c) \<le> day end_date \<and> month (birthday c) \<le> month end_date)
     \<and> get_clients_by_birth_date (start_date\<lparr>year := y1\<rparr>) (end_date\<lparr>year := y2\<rparr>) db =
         get_clients_by_birth_date start_date end_date db
     \<and> set (get_clients_by_birth_date start_date end_date db) \<subseteq> set (clients db)"
  by (simp add: get_clients_by_birth_date_def)

theorem birthday_window_membership_witness:
  "clients two_clients = [alice, bob] \<and>
   alice \<in> set (get_clients_by_birth_date \<lparr>year = 2020, month = 1, day = 1\<rparr>
                                          \<lparr>year = 2020, month = 1, day = 8\<rparr> two_clients) \<and>
   bob \<notin> set (get_clients_by_birth_date \<lparr>year = 2020, month = 1, day = 1\<rparr>
                                        \<lparr>year = 2020, month = 1, day = 8\<rparr> two_clients)"
proof -
  let ?s = "\<lparr>year = 2020, month = 1, day = 1\<rparr>" and ?e = "\<lparr>year = 2020, month = 1, day = 8\<rparr>"
  have a: "alice \<in> set (clients two_clients)" and b: "bob \<in> set (clients two_clients)"
    by (simp_all add: two_clients_def)
  from birthday_window_membership [OF a, of ?s ?e]
  have 1: "alice \<in> set (get_clients_by_birth_date ?s ?e two_clients)"
    by (simp add: alice_def)
  from birthday_window_membership [OF b, of ?s ?e]
  have 2: "bob \<notin> set (get_clients_by_birth_date ?s ?e two_clients)"
    by (simp add: bob_def)
  from 1 2 show ?thesis by (simp add: two_clients_def)
qed

text \<open>
  Claim C8 reads the defaults of the birthday query as the date of the request and that
  date plus seven days. The defaults are fixed when the module is imported: with the
  import on 7 July 2023 and a request without either parameter on 8 July 2023, the window
  used runs from 7 July to 14 July, not from 8 July to 15 July, and the client born on the
  15th, whom the window of the request's own date returns, is left out.
\<close>

theorem birthday_defaults_fixed_at_import:
  "import_routes \<lparr>year = 2023, month = 7, day = 7\<rparr> = Inr routes_of_7_july \<and>
   today (request_of user \<lparr>year = 2023, month = 7, day = 8\<rparr>) =
     \<lparr>year = 2023, month = 7, day = 8\<rparr> \<and>
   date_plus_days \<lparr>year = 2023, month = 7, day = 8\<rparr> 7 =
     Inr \<lparr>year = 2023, month = 7, day = 15\<rparr> \<and>
   query_value (start_date_default routes_of_7_july) None =
     \<lparr>year = 2023, month = 7, day = 7\<rparr> \<and>
   query_value (end_date_default routes_of_7_july) None =
     \<lparr>year = 2023, month = 7, day = 14\<rparr> \<and>
   endpoint routes_of_7_july (request_of user \<lparr>year = 2023, month = 7, day = 8\<rparr>)
            (GetClientsByBirthDate None None) two_clients =
     (Inr (200, ClientList []), two_clients) \<and>
   endpoint routes_of_7_july (request_of user \<lparr>year = 2023, month = 7, day = 8\<rparr>)
            (GetClientsByBirthDate (Some \<lparr>year = 2023, month = 7, day = 8\<rparr>)
                                   (Some \<lparr>year = 2023, month = 7, day = 15\<rparr>)) two_clients =
     (Inr (200, ClientList [bob]), two_clients)"
  by (simp add: import_routes_def date_plus_days_def numeral_eq_Suc next_day_def
      days_in_month_def is_leap_def routes_of_7_july_def request_of_def endpoint_def
      RoleAccess_def allowed_operation_get_def get_clients_by_birth_date_def query_value_def
      two_clients_def alice_def bob_def)

section \<open>Create\<close>

text \<open>
  Claim C3 says that create checks no email uniqueness and that a client whose email
  equals a stored client's email is not rejected. On the store of two clients, a payload
  with the first client's email is rejected with 409 and the store stays as it was.
\<close>

theorem duplicate_email_create_rejected:
  "alice \<in> set (clients two_clients) \<and>
   email (payload ''alice@example.com'') = email alice \<and>
   create_client (payload ''alice@example.com'') two_clients 100 =
     (Inl (HTTPException 409 ''Email is exists!''), two_clients)"
  by (simp add: create_client_def repository_get_client_by_email_def sample_defs)

text \<open>
  Claim C3, amended. The create operation checks email uniqueness before it writes: when
  some stored client holds the payload's email, the route fails with Conflict (409) and
  leaves the store unchanged. The store declares the client email column unique as well:
  the repository's create, run on its own with such a payload, is refused by the store.
\<close>

theorem create_rejects_stored_email:
  "c \<in> set (clients db) \<Longrightarrow> email c = email body \<Longrightarrow>
     create_client body db t = (Inl (HTTPException 409 ''Email is exists!''), db) \<and>
     repository_create body db t = (Inl IntegrityError, db)"
proof -
  assume a: "c \<in> set (clients db)" "email c = email body"
  then have "repository_get_client_by_email (email body) db \<noteq> None"
    by (auto simp: get_by_email_None)
  then have 1: "create_client body db t = (Inl (HTTPException 409 ''Email is exists!''), db)"
    by (auto simp: create_client_def)
  from a have 2: "repository_create body db t = (Inl IntegrityError, db)"
    by (auto simp: repository_create_def list_ex_iff)
  from 1 2 show ?thesis by simp
qed

theorem create_rejects_stored_email_witness:
  "clients two_clients = [alice, bob] \<and>
   email bob = email (payload ''bob@example.com'') \<and>
   create_client (payload ''bob@example.com'') two_clients 100 =
     (Inl (HTTPException 409 ''Email is exists!''), two_clients) \<and>
   repository_create (payload ''bob@example.com'') two_clients 100 =
     (Inl IntegrityError, two_clients)"
proof -
  have m: "bob \<in> set (clients two_clients)" by (simp add: two_clients_def)
  have e: "email bob = email (payload ''bob@example.com'')" by (simp add: bob_def payload_def)
  from create_rejects_stored_email [OF m e, of 100] e show ?thesis
    by (simp add: two_clients_def)
qed

text \<open>
  Claim C4. A create request whose payload email equals the email of a stored client
  fails with Conflict (409) and adds no record. Every other create request succeeds with
  201 and returns the new client: the payload's six fields, the next identifier of the
  store and both timestamps at the time of the write; the store gains exactly that row.
  Every role may create, so this holds for every caller.
\<close>

theorem create_conflict_or_created:
  "((\<exists>c\<in>set (clients db). email c = email body) \<longrightarrow>
      endpoint app req (CreateClient body) db =
        (Inl (HTTPException 409 ''Email is exists!''), db)
      \<and> status_code (HTTPException 409 ''Email is exists!'') = 409) \<and>
   ((\<forall>c\<in>set (clients db). email c \<noteq> email body) \<longrightarrow>
      (\<exists>client. endpoint app req (CreateClient body) db =
                  (Inr (201, ClientItem client),
                   db\<lparr>clients := clients db @ [client], next_id := next_id db + 1\<rparr>)
                \<and> first_name client = first_name body \<and> last_name client = last_name body
                \<and> email client = email body \<and> mobile client = mobile body
                \<and> birthday client = birthday body \<and> add_info client = add_info body
                \<and> id_pk client = next_id db
                \<and> created_at client = now req \<and> updated_at client = now req))"
proof (intro conjI impI)
  assume "\<exists>c\<in>set (clients db). email c = email body"
  then have "repository_get_client_by_email (email body) db \<noteq> None"
    by (auto simp: get_by_email_None)
  then show "endpoint app req (CreateClient body) db =
               (Inl (HTTPException 409 ''Email is exists!''), db)"
    by (auto simp: endpoint_create create_client_def reply_def)
next
  show "status_code (HTTPException 409 ''Email is exists!'') = 409" by simp
next
  assume a: "\<forall>c\<in>set (clients db). email c \<noteq> email body"
  then have n: "repository_get_client_by_email (email body) db = None"
    by (simp add: get_by_email_None)
  from a have l: "\<not> list_ex (\<lambda>c. email c = email body) (clients db)"
    by (simp add: list_ex_iff)
  show "\<exists>client. endpoint app req (CreateClient body) db =
                  (Inr (201, ClientItem client),
                   db\<lparr>clients := clients db @ [client], next_id := next_id db + 1\<rparr>)
                \<and> first_name client = first_name body \<and> last_name client = last_name body
                \<and> email client = email body \<and> mobile client = mobile body
                \<and> birthday client = birthday body \<and> add_info client = add_info body
                \<and> id_pk client = next_id db
                \<and> created_at client = now req \<and> updated_at client = now req"
    by (simp add: endpoint_create create_client_def n repository_create_def l reply_def Let_def)
qed

theorem create_conflict_or_created_witness:
  "clients two_clients = [alice, bob] \<and>
   email alice = email (payload ''alice@example.com'') \<and>
   endpoint routes_of_7_july (request_of user \<lparr>year = 2023, month = 7, day = 8\<rparr>)
            (CreateClient (payload ''alice@example.com'')) two_clients =
     (Inl (HTTPException 409 ''Email is exists!''), two_clients) \<and>
   email alice \<noteq> email (payload ''carol@example.com'') \<and>
   email bob \<noteq> email (payload ''carol@example.com'') \<and>
   (\<exists>client. endpoint routes_of_7_july (request_of user \<lparr>year = 2023, month = 7, day = 8\<rparr>)
                       (CreateClient (payload ''carol@example.com'')) two_clients =
               (Inr (201, ClientItem client), \<lparr>clients = [alice, bob, client], next_id = 4\<rparr>)
            \<and> email client = ''carol@example.com'' \<and> id_pk client = 3
            \<and> created_at client = 100 \<and> updated_at client = 100)"
proof -
  let ?req = "request_of user \<lparr>year = 2023, month = 7, day = 8\<rparr>"
  let ?dup = "payload ''alice@example.com''" and ?new = "payload ''carol@example.com''"
  have cl: "clients two_clients = [alice, bob]" by (simp add: two_clients_def)
  have h1: "\<exists>c\<in>set (clients two_clients). email c = email ?dup"
    by (simp add: sample_defs)
  have h2: "\<forall>c\<in>set (clients two_clients). email c \<noteq> email ?new"
    by (simp add: sample_defs)
  note t1 = create_conflict_or_created [of two_clients ?dup routes_of_7_july ?req]
  note t2 = create_conflict_or_created [of two_clients ?new routes_of_7_july ?req]
  from t1 h1 have 1: "endpoint routes_of_7_july ?req (CreateClient ?dup) two_clients =
     (Inl (HTTPException 409 ''Email is exists!''), two_clients)" by blast
  from t2 h2 obtain client where
    c: "endpoint routes_of_7_july ?req (CreateClient ?new) two_clients =
          (Inr (201, ClientItem client),
           two_clients\<lparr>clients := clients two_clients @ [client],
                       next_id := next_id two_clients + 1\<rparr>)"
       "email client = email ?new" "id_pk client = next_id two_clients"
       "created_at client = now ?req" "updated_at client = now ?req"
    by blast
  have 2: "\<exists>client. endpoint routes_of_7_july ?req (CreateClient ?new) two_clients =
               (Inr (201, ClientItem client), \<lparr>clients = [alice, bob, client], next_id = 4\<rparr>)
            \<and> email client = ''carol@example.com'' \<and> id_pk client = 3
            \<and> created_at client = 100 \<and> updated_at client = 100"
    using c by (intro exI [of _ client]) (simp add: two_clients_def payload_def request_of_def)
  have 3: "email alice = email ?dup" "email alice \<noteq> email ?new" "email bob \<noteq> email ?new"
    by (simp_all add: sample_defs)
  from cl 1 2 3 show ?thesis by blast
qed

section \<open>Identifier validation and lookup\<close>

text \<open>
  Claim C7. An identifier below 1 passed to get-by-id, update or delete fails validation
  whatever the store holds, and the store is returned as it was. For an identifier of at
  least 1, get-by-id fails with NotFound exactly when no record has the identifier, fails
  in no other way, and otherwise returns a stored record with that identifier.
\<close>

theorem path_id_validation_and_lookup:
  "(client_id < 1 \<longrightarrow>
      get_client client_id db = Inl RequestValidationError \<and>
      update_client body client_id db t = (Inl RequestValidationError, db) \<and>
      remove_client client_id db = (Inl RequestValidationError, db)) \<and>
   (1 \<le> client_id \<longrightarrow>
      (get_client client_id db = Inl (HTTPException 404 ''Not Found'') \<longleftrightarrow>
         (\<forall>c\<in>set (clients db). id_pk c \<noteq> client_id)) \<and>
      (\<forall>e. get_client client_id db = Inl e \<longrightarrow> e = HTTPException 404 ''Not Found'') \<and>
      (\<forall>c. get_client client_id db = Inr c \<longrightarrow>
            c \<in> set (clients db) \<and> id_pk c = client_id \<and>
            repository_get_client_by_id client_id db = Some c) \<and>
      ((\<exists>c\<in>set (clients db). id_pk c = client_id) \<longrightarrow>
         (\<exists>c. get_client client_id db = Inr c)))"
proof (intro conjI impI)
  assume "client_id < 1"
  then show "get_client client_id db = Inl RequestValidationError"
    "update_client body client_id db t = (Inl RequestValidationError, db)"
    "remove_client client_id db = (Inl RequestValidationError, db)"
    by (simp_all add: get_client_def update_client_def remove_client_def)
next
  assume ge: "1 \<le> client_id"
  then show "get_client client_id db = Inl (HTTPException 404 ''Not Found'') \<longleftrightarrow>
         (\<forall>c\<in>set (clients db). id_pk c \<noteq> client_id)"
    by (auto simp: get_client_def get_by_id_None [symmetric] split: option.splits)
  from ge show "\<forall>e. get_client client_id db = Inl e \<longrightarrow> e = HTTPException 404 ''Not Found''"
    by (auto simp: get_client_def split: option.splits)
  from ge show "\<forall>c. get_client client_id db = Inr c \<longrightarrow>
            c \<in> set (clients db) \<and> id_pk c = client_id \<and>
            repository_get_client_by_id client_id db = Some c"
    by (auto simp: get_client_def split: option.splits dest: get_by_id_Some)
next
  assume ge: "1 \<le> client_id" and "\<exists>c\<in>set (clients db). id_pk c = client_id"
  then have "repository_get_client_by_id client_id db \<noteq> None" by (simp add: get_by_id_None)
  with ge show "\<exists>c. get_client client_id db = Inr c"
    by (auto simp: get_client_def)
qed

theorem path_id_validation_and_lookup_witness:
  "(0::int) < 1 \<and>
   get_client 0 two_clients = Inl RequestValidationError \<and>
   update_client (payload ''carol@example.com'') 0 two_clients 100 =
     (Inl RequestValidationError, two_clients) \<and>
   remove_client 0 two_clients = (Inl RequestValidationError, two_clients) \<and>
   (1::int) \<le> 7 \<and> clients two_clients = [alice, bob] \<and> id_pk alice \<noteq> 7 \<and> id_pk bob \<noteq> 7 \<and>
   get_client 7 two_clients = Inl (HTTPException 404 ''Not Found'') \<and>
   (1::int) \<le> 1 \<and> id_pk alice = 1 \<and>
   (\<exists>c. get_client 1 two_clients = Inr c)"
proof -
  let ?b = "payload ''carol@example.com''"
  have cl: "clients two_clients = [alice, bob]" by (simp add: two_clients_def)
  have ge7: "(1::int) \<le> 7" and ge1: "(1::int) \<le> 1" by simp_all
  have t0: "get_client 0 two_clients = Inl RequestValidationError"
    "update_client ?b 0 two_clients 100 = (Inl RequestValidationError, two_clients)"
    "remove_client 0 two_clients = (Inl RequestValidationError, two_clients)"
    using path_id_validation_and_lookup [of 0 two_clients ?b 100, THEN conjunct1]
    by simp_all
  have h7: "\<forall>c\<in>set (clients two_clients). id_pk c \<noteq> 7" by (simp add: sample_defs)
  have t7: "get_client 7 two_clients = Inl (HTTPException 404 ''Not Found'')"
    using path_id_validation_and_lookup
            [of 7 two_clients ?b 100, THEN conjunct2, THEN mp, OF ge7] h7
    by blast
  have h1: "\<exists>c\<in>set (clients two_clients). id_pk c = 1" by (simp add: sample_defs)
  have t1: "\<exists>c. get_client 1 two_clients = Inr c"
    using path_id_validation_and_lookup
            [of 1 two_clients ?b 100, THEN conjunct2, THEN mp, OF ge1] h1
    by blast
  have 3: "id_pk alice \<noteq> 7" "id_pk bob \<noteq> 7" "id_pk alice = 1" by (simp_all add: sample_defs)
  from cl t0 t7 t1 3 show ?thesis by simp
qed

section \<open>Update\<close>

text \<open>
  Claim C5 says that update, whenever a record with the identifier exists, replaces every
  mutable field as given and refreshes the last-update timestamp. On the store of two
  clients the record with identifier 1 exists, yet an update of it to the email of the
  other client replaces nothing, the store refusing the write; and an update of it with
  the very fields it holds issues no write, so its last-update timestamp stays at 10
  although the clock reads 100.
\<close>

theorem update_existing_not_replaced_or_not_refreshed:
  "repository_get_client_by_id 1 two_clients = Some alice \<and>
   email (payload ''bob@example.com'') \<noteq> email alice \<and>
   update_client (payload ''bob@example.com'') 1 two_clients 100 =
     (Inl IntegrityError, two_clients) \<and>
   update_client alice_payload 1 two_clients 100 = (Inr alice, two_clients) \<and>
   updated_at alice = 10"
  by (simp add: update_client_def repository_update_def repository_get_client_by_id_def
      no_net_change_def alice_payload_def sample_defs)

text \<open>
  Claim C5, amended. For every identifier of at least 1, update fails with NotFound and
  leaves the store unchanged when no record has the identifier. When a record has it and
  no other record holds the payload's email, update succeeds and the record it returns,
  which is the one then stored under the identifier, has the six mutable fields of the
  payload, the identifier and the creation timestamp it had; every other record is
  untouched. When the payload differs from the stored record in at least one of the six
  fields, the last-update timestamp is set to the time of the write; when it differs in
  none, nothing is written and the timestamp stays.
\<close>

theorem update_missing_or_replaced:
  "1 \<le> client_id \<Longrightarrow>
   ((\<forall>c\<in>set (clients db). id_pk c \<noteq> client_id) \<longrightarrow>
      update_client body client_id db t = (Inl (HTTPException 404 ''Not Found''), db)) \<and>
   (\<forall>client. repository_get_client_by_id client_id db = Some client \<and>
       (\<forall>c\<in>set (clients db). id_pk c \<noteq> client_id \<longrightarrow> email c \<noteq> email body) \<longrightarrow>
      (\<exists>client' db'. update_client body client_id db t = (Inr client', db')
         \<and> first_name client' = first_name body \<and> last_name client' = last_name body
         \<and> email client' = email body \<and> mobile client' = mobile body
         \<and> birthday client' = birthday body \<and> add_info client' = add_info body
         \<and> (\<not> no_net_change body client \<longrightarrow> updated_at client' = t)
         \<and> (no_net_change body client \<longrightarrow>
               updated_at client' = updated_at client \<and> db' = db)
         \<and> id_pk client' = client_id \<and> created_at client' = created_at client
         \<and> repository_get_client_by_id client_id db' = Some client'
         \<and> filter (\<lambda>c. id_pk c \<noteq> client_id) (clients db') =
             filter (\<lambda>c. id_pk c \<noteq> client_id) (clients db)
         \<and> length (clients db') = length (clients db) \<and> next_id db' = next_id db))"
proof (intro conjI impI allI)
  assume ge: "1 \<le> client_id" and "\<forall>c\<in>set (clients db). id_pk c \<noteq> client_id"
  then have "repository_get_client_by_id client_id db = None" by (simp add: get_by_id_None)
  with ge show "update_client body client_id db t = (Inl (HTTPException 404 ''Not Found''), db)"
    by (simp add: update_client_def repository_update_def)
next
  fix client
  assume ge: "1 \<le> client_id"
    and a: "repository_get_client_by_id client_id db = Some client \<and>
       (\<forall>c\<in>set (clients db). id_pk c \<noteq> client_id \<longrightarrow> email c \<noteq> email body)"
  let ?goal = "\<lambda>client' db'. update_client body client_id db t = (Inr client', db')
         \<and> first_name client' = first_name body \<and> last_name client' = last_name body
         \<and> email client' = email body \<and> mobile client' = mobile body
         \<and> birthday client' = birthday body \<and> add_info client' = add_info body
         \<and> (\<not> no_net_change body client \<longrightarrow> updated_at client' = t)
         \<and> (no_net_change body client \<longrightarrow>
               updated_at client' = updated_at client \<and> db' = db)
         \<and> id_pk client' = client_id \<and> created_at client' = created_at client
         \<and> repository_get_client_by_id client_id db' = Some client'
         \<and> filter (\<lambda>c. id_pk c \<noteq> client_id) (clients db') =
             filter (\<lambda>c. id_pk c \<noteq> client_id) (clients db)
         \<and> length (clients db') = length (clients db) \<and> next_id db' = next_id db"
  from a have s: "repository_get_client_by_id client_id db = Some client" by simp
  from a have l: "\<not> list_ex (\<lambda>c. id_pk c \<noteq> client_id \<and> email c = email body) (clients db)"
    by (auto simp: list_ex_iff)
  from s have idc: "id_pk client = client_id" by (auto dest: get_by_id_Some)
  show "\<exists>client' db'. ?goal client' db'"
  proof (cases "no_net_change body client")
    case True
    with ge s l have u: "update_client body client_id db t = (Inr client, db)"
      by (simp add: update_client_def repository_update_def)
    from True have flds: "first_name client = first_name body \<and> last_name client = last_name body
         \<and> email client = email body \<and> mobile client = mobile body
         \<and> birthday client = birthday body \<and> add_info client = add_info body"
      by (simp add: no_net_change_def)
    from u flds True idc s have "?goal client db" by simp
    then show ?thesis by blast
  next
    case False
    let ?c' = "assign_fields body t client"
    let ?db' = "db\<lparr>clients :=
                    map (\<lambda>c. if id_pk c = client_id then assign_fields body t c else c)
                        (clients db)\<rparr>"
    from False ge s l have u: "update_client body client_id db t = (Inr ?c', ?db')"
      by (simp add: update_client_def repository_update_def)
    from s idc have g: "repository_get_client_by_id client_id ?db' = Some ?c'"
      by (simp add: repository_get_client_by_id_def find_map_upd id_pk_assign)
    have f: "filter (\<lambda>c. id_pk c \<noteq> client_id) (clients ?db') =
             filter (\<lambda>c. id_pk c \<noteq> client_id) (clients db)"
      by (simp add: filter_map_other id_pk_assign)
    have flds: "first_name ?c' = first_name body \<and> last_name ?c' = last_name body
           \<and> email ?c' = email body \<and> mobile ?c' = mobile body
           \<and> birthday ?c' = birthday body \<and> add_info ?c' = add_info body
           \<and> updated_at ?c' = t \<and> created_at ?c' = created_at client"
      by (simp add: assign_fields_def)
    have idc': "id_pk ?c' = client_id" by (simp add: id_pk_assign idc)
    have len: "length (clients ?db') = length (clients db) \<and> next_id ?db' = next_id db"
      by simp
    from u g f flds idc' len False have "?goal ?c' ?db'" by simp
    then show ?thesis by blast
  qed
qed

theorem update_missing_or_replaced_witness:
  "clients two_clients = [alice, bob] \<and> id_pk alice \<noteq> 7 \<and> id_pk bob \<noteq> 7 \<and>
   update_client (payload ''carol@example.com'') 7 two_clients 100 =
     (Inl (HTTPException 404 ''Not Found''), two_clients) \<and>
   repository_get_client_by_id 1 two_clients = Some alice \<and>
   email bob \<noteq> email (payload ''carol@example.com'') \<and>
   \<not> no_net_change (payload ''carol@example.com'') alice \<and>
   (\<exists>client' db'. update_client (payload ''carol@example.com'') 1 two_clients 100 = (Inr client', db')
       \<and> first_name client' = ''Carol'' \<and> email client' = ''carol@example.com''
       \<and> updated_at client' = 100 \<and> created_at client' = 10 \<and> id_pk client' = 1
       \<and> repository_get_client_by_id 1 db' = Some client') \<and>
   email bob \<noteq> email alice_payload \<and> no_net_change alice_payload alice \<and>
   (\<exists>client'. update_client alice_payload 1 two_clients 100 = (Inr client', two_clients)
       \<and> first_name client' = ''Alice'' \<and> email client' = ''alice@example.com''
       \<and> updated_at client' = 10 \<and> created_at client' = 10 \<and> id_pk client' = 1)"
proof -
  let ?b = "payload ''carol@example.com''"
  have cl: "clients two_clients = [alice, bob]" by (simp add: two_clients_def)
  have ge7: "(1::int) \<le> 7" and ge1: "(1::int) \<le> 1" by simp_all
  have h1: "\<forall>c\<in>set (clients two_clients). id_pk c \<noteq> 7" by (simp add: sample_defs)
  have g: "repository_get_client_by_id 1 two_clients = Some alice"
    by (simp add: repository_get_client_by_id_def sample_defs)
  have h2: "\<forall>c\<in>set (clients two_clients). id_pk c \<noteq> 1 \<longrightarrow> email c \<noteq> email ?b"
    by (simp add: sample_defs)
  have h3: "\<forall>c\<in>set (clients two_clients). id_pk c \<noteq> 1 \<longrightarrow> email c \<noteq> email alice_payload"
    by (simp add: sample_defs alice_payload_def)
  have n2: "\<not> no_net_change ?b alice"
    by (simp add: no_net_change_def payload_def alice_def)
  have n3: "no_net_change alice_payload alice"
    by (simp add: no_net_change_def alice_payload_def alice_def)
  have t1: "update_client ?b 7 two_clients 100 =
              (Inl (HTTPException 404 ''Not Found''), two_clients)"
    using update_missing_or_replaced [OF ge7, of two_clients ?b 100, THEN conjunct1] h1
    by blast
  from update_missing_or_replaced [OF ge1, of two_clients ?b 100, THEN conjunct2] g h2 n2
  obtain client' db' where
    u: "update_client ?b 1 two_clients 100 = (Inr client', db')"
      "first_name client' = first_name ?b" "email client' = email ?b"
      "updated_at client' = 100" "id_pk client' = 1" "created_at client' = created_at alice"
      "repository_get_client_by_id 1 db' = Some client'"
    by blast
  have t2: "\<exists>client' db'. update_client ?b 1 two_clients 100 = (Inr client', db')
       \<and> first_name client' = ''Carol'' \<and> email client' = ''carol@example.com''
       \<and> updated_at client' = 100 \<and> created_at client' = 10 \<and> id_pk client' = 1
       \<and> repository_get_client_by_id 1 db' = Some client'"
    using u by (intro exI [of _ client'] exI [of _ db']) (simp add: payload_def alice_def)
  from update_missing_or_replaced [OF ge1, of two_clients alice_payload 100, THEN conjunct2]
    g h3 n3
  obtain client'' db'' where
    v: "update_client alice_payload 1 two_clients 100 = (Inr client'', db'')"
      "first_name client'' = first_name alice_payload" "email client'' = email alice_payload"
      "updated_at client'' = updated_at alice" "db'' = two_clients"
      "id_pk client'' = 1" "created_at client'' = created_at alice"
    by blast
  have t3: "\<exists>client'. update_client alice_payload 1 two_clients 100 = (Inr client', two_clients)
       \<and> first_name client' = ''Alice'' \<and> email client' = ''alice@example.com''
       \<and> updated_at client' = 10 \<and> created_at client' = 10 \<and> id_pk client' = 1"
    using v by (intro exI [of _ client'']) (simp add: alice_payload_def alice_def)
  have 3: "id_pk alice \<noteq> 7" "id_pk bob \<noteq> 7" "email bob \<noteq> email ?b"
    "email bob \<noteq> email alice_payload"
    by (simp_all add: sample_defs alice_payload_def)
  from cl t1 g t2 t3 n2 n3 3 show ?thesis by blast
qed

text \<open>
  Claim C10. Update has no email check of its own. When the record to update exists and
  a different record already holds the payload's email, the route raises no Conflict: the
  write is refused by the store's unique constraint on the client email column, the
  failure is the store's own (status 500, not 409), and the store is left as it was.
\<close>

theorem update_taken_email_store_failure:
  "1 \<le> client_id \<Longrightarrow> c \<in> set (clients db) \<Longrightarrow> id_pk c = client_id \<Longrightarrow>
   c' \<in> set (clients db) \<Longrightarrow> id_pk c' \<noteq> client_id \<Longrightarrow> email c' = email body \<Longrightarrow>
     update_client body client_id db t = (Inl IntegrityError, db) \<and>
     IntegrityError \<noteq> HTTPException 409 detail \<and> status_code IntegrityError = 500"
proof -
  assume ge: "1 \<le> client_id" and c: "c \<in> set (clients db)" "id_pk c = client_id"
    and c': "c' \<in> set (clients db)" "id_pk c' \<noteq> client_id" "email c' = email body"
  from c have "repository_get_client_by_id client_id db \<noteq> None"
    by (auto simp: get_by_id_None)
  then obtain x where x: "repository_get_client_by_id client_id db = Some x" by blast
  from c' have l: "list_ex (\<lambda>c. id_pk c \<noteq> client_id \<and> email c = email body) (clients db)"
    by (auto simp: list_ex_iff)
  from ge x l show ?thesis
    by (simp add: update_client_def repository_update_def)
qed

theorem update_taken_email_store_failure_witness:
  "(1::int) \<le> 1 \<and> clients two_clients = [alice, bob] \<and> id_pk alice = 1 \<and> id_pk bob \<noteq> 1 \<and>
   email bob = email (payload ''bob@example.com'') \<and>
   update_client (payload ''bob@example.com'') 1 two_clients 250 =
     (Inl IntegrityError, two_clients) \<and>
   status_code IntegrityError = 500"
proof -
  have a: "alice \<in> set (clients two_clients)" "id_pk alice = 1"
    and b: "bob \<in> set (clients two_clients)" "id_pk bob \<noteq> 1"
      "email bob = email (payload ''bob@example.com'')"
    by (simp_all add: sample_defs)
  have ge: "(1::int) \<le> 1" by simp
  from update_taken_email_store_failure [OF ge a b, of 250] a b show ?thesis
    by (simp add: two_clients_def)
qed

section \<open>Delete\<close>

text \<open>
  Claim C6. For every identifier of at least 1, delete fails with NotFound and leaves the
  store unchanged when no record has the identifier. When a record has it, delete returns
  that record as it was stored and removes every row with the identifier, so that a
  get-by-id on the identifier afterwards fails with NotFound; the other rows stay.
\<close>

theorem remove_missing_or_deleted:
  "1 \<le> client_id \<Longrightarrow>
   ((\<forall>c\<in>set (clients db). id_pk c \<noteq> client_id) \<longrightarrow>
      remove_client client_id db = (Inl (HTTPException 404 ''Not Found''), db)) \<and>
   ((\<exists>c\<in>set (clients db). id_pk c = client_id) \<longrightarrow>
      (\<exists>client db'. remove_client client_id db = (Inr client, db')
         \<and> client \<in> set (clients db) \<and> id_pk client = client_id
         \<and> repository_get_client_by_id client_id db = Some client
         \<and> clients db' = filter (\<lambda>c. id_pk c \<noteq> client_id) (clients db)
         \<and> next_id db' = next_id db
         \<and> get_client client_id db' = Inl (HTTPException 404 ''Not Found'')))"
proof (intro conjI impI)
  assume ge: "1 \<le> client_id" and "\<forall>c\<in>set (clients db). id_pk c \<noteq> client_id"
  then have "repository_get_client_by_id client_id db = None" by (simp add: get_by_id_None)
  with ge show "remove_client client_id db = (Inl (HTTPException 404 ''Not Found''), db)"
    by (simp add: remove_client_def repository_remove_def)
next
  assume ge: "1 \<le> client_id" and ex: "\<exists>c\<in>set (clients db). id_pk c = client_id"
  then have "repository_get_client_by_id client_id db \<noteq> None" by (simp add: get_by_id_None)
  then obtain client where s: "repository_get_client_by_id client_id db = Some client"
    by blast
  let ?db' = "db\<lparr>clients := filter (\<lambda>c. id_pk c \<noteq> client_id) (clients db)\<rparr>"
  from ge s have r: "remove_client client_id db = (Inr client, ?db')"
    by (simp add: remove_client_def repository_remove_def)
  have "repository_get_client_by_id client_id ?db' = None"
    by (simp add: get_by_id_None)
  with ge have g: "get_client client_id ?db' = Inl (HTTPException 404 ''Not Found'')"
    by (simp add: get_client_def)
  from r s g get_by_id_Some [OF s]
  show "\<exists>client db'. remove_client client_id db = (Inr client, db')
         \<and> client \<in> set (clients db) \<and> id_pk client = client_id
         \<and> repository_get_client_by_id client_id db = Some client
         \<and> clients db' = filter (\<lambda>c. id_pk c \<noteq> client_id) (clients db)
         \<and> next_id db' = next_id db
         \<and> get_client client_id db' = Inl (HTTPException 404 ''Not Found'')"
    by auto
qed

theorem remove_missing_or_deleted_witness:
  "clients two_clients = [alice, bob] \<and> id_pk alice \<noteq> 7 \<and> id_pk bob \<noteq> 7 \<and>
   remove_client 7 two_clients = (Inl (HTTPException 404 ''Not Found''), two_clients) \<and>
   id_pk bob = 2 \<and>
   remove_client 2 two_clients = (Inr bob, \<lparr>clients = [alice], next_id = 3\<rparr>) \<and>
   get_client 2 \<lparr>clients = [alice], next_id = 3\<rparr> = Inl (HTTPException 404 ''Not Found'')"
proof -
  have cl: "clients two_clients = [alice, bob]" by (simp add: two_clients_def)
  have ge7: "(1::int) \<le> 7" and ge2: "(1::int) \<le> 2" by simp_all
  have h1: "\<forall>c\<in>set (clients two_clients). id_pk c \<noteq> 7" by (simp add: sample_defs)
  have h2: "\<exists>c\<in>set (clients two_clients). id_pk c = 2" by (simp add: sample_defs)
  have t1: "remove_client 7 two_clients = (Inl (HTTPException 404 ''Not Found''), two_clients)"
    using remove_missing_or_deleted [OF ge7, of two_clients, THEN conjunct1] h1 by blast
  from remove_missing_or_deleted [OF ge2, of two_clients, THEN conjunct2] h2
  obtain client db' where
    r: "remove_client 2 two_clients = (Inr client, db')"
      "repository_get_client_by_id 2 two_clients = Some client"
      "clients db' = filter (\<lambda>c. id_pk c \<noteq> 2) (clients two_clients)"
      "next_id db' = next_id two_clients"
      "get_client 2 db' = Inl (HTTPException 404 ''Not Found'')"
    by blast
  have "repository_get_client_by_id 2 two_clients = Some bob"
    by (simp add: repository_get_client_by_id_def sample_defs)
  with r have cb: "client = bob" by simp
  have "db' = \<lparr>clients = [alice], next_id = 3\<rparr>"
    using r(3,4) by (cases db') (simp add: sample_defs)
  with r cb have t2: "remove_client 2 two_clients = (Inr bob, \<lparr>clients = [alice], next_id = 3\<rparr>)"
    "get_client 2 \<lparr>clients = [alice], next_id = 3\<rparr> = Inl (HTTPException 404 ''Not Found'')"
    by simp_all
  have 3: "id_pk alice \<noteq> 7" "id_pk bob \<noteq> 7" "id_pk bob = 2" by (simp_all add: sample_defs)
  from cl t1 t2 3 show ?thesis by blast
qed

section \<open>Rate limit\<close>

text \<open>
  Claim C9. The limit of 2 calls per 5 seconds is declared by the unfiltered list route
  and by no other route. A list call that the limiter finds over that limit fails with
  the throttling error and the store is returned as it was, whatever it holds; for every
  other operation the outcome does not depend on the limiter at all.
\<close>

theorem rate_limit_only_on_list:
  "(route_rate_limit opn = Some (2, 5) \<longleftrightarrow> opn = GetClients) \<and>
   (opn \<noteq> GetClients \<longrightarrow> route_rate_limit opn = None) \<and>
   (over_limit req 2 5 \<longrightarrow> endpoint app req GetClients db = (Inl Throttled, db)) \<and>
   (opn \<noteq> GetClients \<longrightarrow>
      endpoint app (req\<lparr>over_limit := f\<rparr>) opn db = endpoint app req opn db)"
proof (intro conjI impI)
  show "route_rate_limit opn = Some (2, 5) \<longleftrightarrow> opn = GetClients"
    by (cases opn) simp_all
  show "route_rate_limit opn = None" if "opn \<noteq> GetClients"
    using that by (cases opn) simp_all
  show "endpoint app req GetClients db = (Inl Throttled, db)" if "over_limit req 2 5"
    using that by (simp add: endpoint_def RoleAccess_def role_allowed_get)
  show "endpoint app (req\<lparr>over_limit := f\<rparr>) opn db = endpoint app req opn db"
    if "opn \<noteq> GetClients"
    using that by (cases opn) (simp_all add: endpoint_def split: option.splits)
qed

theorem rate_limit_only_on_list_witness:
  "over_limit ((request_of user \<lparr>year = 2023, month = 7, day = 8\<rparr>)
                 \<lparr>over_limit := \<lambda>limit seconds. True\<rparr>) 2 5 \<and>
   endpoint routes_of_7_july
      ((request_of user \<lparr>year = 2023, month = 7, day = 8\<rparr>)\<lparr>over_limit := \<lambda>limit seconds. True\<rparr>)
      GetClients two_clients = (Inl Throttled, two_clients) \<and>
   GetClient 1 \<noteq> GetClients \<and> route_rate_limit (GetClient 1) = None \<and>
   endpoint routes_of_7_july
      ((request_of user \<lparr>year = 2023, month = 7, day = 8\<rparr>)\<lparr>over_limit := \<lambda>limit seconds. True\<rparr>)
      (GetClient 1) two_clients = (Inr (200, ClientItem alice), two_clients)"
proof -
  let ?r = "request_of user \<lparr>year = 2023, month = 7, day = 8\<rparr>"
  let ?f = "\<lambda>(limit::nat) (seconds::nat). True"
  have h: "over_limit (?r\<lparr>over_limit := ?f\<rparr>) 2 5" by simp
  have n: "GetClient 1 \<noteq> GetClients" by simp
  from rate_limit_only_on_list
         [of GetClients "?r\<lparr>over_limit := ?f\<rparr>" routes_of_7_july two_clients] h
  have 1: "endpoint routes_of_7_july (?r\<lparr>over_limit := ?f\<rparr>) GetClients two_clients =
             (Inl Throttled, two_clients)"
    by simp
  from rate_limit_only_on_list [of "GetClient 1" ?r routes_of_7_july two_clients ?f] n
  have 2: "route_rate_limit (GetClient 1) = None"
    "endpoint routes_of_7_july (?r\<lparr>over_limit := ?f\<rparr>) (GetClient 1) two_clients =
       endpoint routes_of_7_july ?r (GetClient 1) two_clients"
    by simp_all
  have 3: "endpoint routes_of_7_july ?r (GetClient 1) two_clients =
             (Inr (200, ClientItem alice), two_clients)"
    by (simp add: endpoint_def RoleAccess_def request_of_def allowed_operation_get_def
        reply_def get_client_def repository_get_client_by_id_def sample_defs)
  from h n 1 2 3 show ?thesis by simp
qed

end
